theory Spec2Isabelle
  imports Complex_Main "HOL-Library.Word" "HOL-Library.Multiset"
begin

section \<open>JavaScript values as the handlers see them\<close>

text \<open>
  A JavaScript string is a sequence of 16-bit code units: \<open>length\<close>, \<open>substring\<close>
  and \<open>[0]\<close> count code units. Property names are kept as byte strings, since the
  program only compares them for equality with its own ASCII literals.
\<close>

type_synonym utf16 = "16 word list"

definition utf16_of :: "string \<Rightarrow> utf16" where
  "utf16_of s = map of_char s"

text \<open>
  The values that reach the handlers: parsed JSON bodies, the object tree that xml2js
  builds, and \<open>undefined\<close> for an absent property. Numbers are the finite values a
  JSON document can carry. \<open>JFun\<close> is a built-in method read as a property.
\<close>

datatype jsval =
    JUndef
  | JNull
  | JBool bool
  | JNum real
  | JStr utf16
  | JArr "jsval list"
  | JObj "(string \<times> jsval) list"
  | JFun string

text \<open>
  What a \<open>try\<close> block can catch here: the rejections of axios (no connection,
  timeout, a status outside 2xx), of the parser, and the TypeError of reading a
  property of \<open>undefined\<close> or \<open>null\<close>. All are Error objects, so \<open>err.message\<close>
  in a \<open>catch\<close> is defined.
\<close>

datatype js_exn =
    NetworkError
  | TimeoutError
  | HttpStatusError nat
  | ParseError
  | TypeError

definition bind_exn :: "js_exn + 'a \<Rightarrow> ('a \<Rightarrow> js_exn + 'b) \<Rightarrow> js_exn + 'b" where
  "bind_exn m f = (case m of Inl x \<Rightarrow> Inl x | Inr v \<Rightarrow> f v)"

text \<open>ToBoolean: what \<open>&&\<close>, \<open>||\<close>, \<open>!\<close> and \<open>? :\<close> test.\<close>

fun truthy :: "jsval \<Rightarrow> bool" where
  "truthy JUndef = False"
| "truthy JNull = False"
| "truthy (JBool b) = b"
| "truthy (JNum n) = (n \<noteq> 0)"
| "truthy (JStr s) = (s \<noteq> [])"
| "truthy (JArr xs) = True"
| "truthy (JObj kvs) = True"
| "truthy (JFun f) = True"

text \<open>
  \<open>v.k\<close> for the property names this program reads (\<open>feed\<close>, \<open>entry\<close>, \<open>id\<close>,
  \<open>title\<close>, \<open>updated\<close>, \<open>summary\<close>, \<open>_\<close>, \<open>link\<close>, \<open>$\<close>, \<open>href\<close>,
  \<open>fields\<close>, \<open>url\<close>, \<open>data\<close>). Reading a property of \<open>undefined\<close> or \<open>null\<close>
  throws a TypeError. Of these names only \<open>link\<close> exists on a primitive: it is the
  legacy method \<open>String.prototype.link\<close>.
\<close>

fun js_get :: "jsval \<Rightarrow> string \<Rightarrow> js_exn + jsval" where
  "js_get JUndef k = Inl TypeError"
| "js_get JNull k = Inl TypeError"
| "js_get (JObj kvs) k = Inr (case map_of kvs k of None \<Rightarrow> JUndef | Some v \<Rightarrow> v)"
| "js_get (JStr s) k = Inr (if k = ''link'' then JFun ''String.prototype.link'' else JUndef)"
| "js_get (JBool b) k = Inr JUndef"
| "js_get (JNum n) k = Inr JUndef"
| "js_get (JArr xs) k = Inr JUndef"
| "js_get (JFun f) k = Inr JUndef"

text \<open>\<open>v[0]\<close>: the first element of an array, the first code unit of a string.\<close>

fun js_at0 :: "jsval \<Rightarrow> js_exn + jsval" where
  "js_at0 JUndef = Inl TypeError"
| "js_at0 JNull = Inl TypeError"
| "js_at0 (JArr xs) = Inr (case xs of [] \<Rightarrow> JUndef | x # _ \<Rightarrow> x)"
| "js_at0 (JStr s) = Inr (case s of [] \<Rightarrow> JUndef | c # _ \<Rightarrow> JStr [c])"
| "js_at0 (JObj kvs) = Inr (case map_of kvs ''0'' of None \<Rightarrow> JUndef | Some v \<Rightarrow> v)"
| "js_at0 (JBool b) = Inr JUndef"
| "js_at0 (JNum n) = Inr JUndef"
| "js_at0 (JFun f) = Inr JUndef"

fun is_array :: "jsval \<Rightarrow> bool" where
  "is_array (JArr xs) = True"
| "is_array v = False"

text \<open>\<open>xs.map(f)\<close> where the callback may throw: the first exception ends the map.\<close>

fun js_map :: "('a \<Rightarrow> js_exn + 'b) \<Rightarrow> 'a list \<Rightarrow> js_exn + 'b list" where
  "js_map f [] = Inr []"
| "js_map f (x # xs) =
     (case f x of
        Inl e \<Rightarrow> Inl e
      | Inr y \<Rightarrow> (case js_map f xs of Inl e \<Rightarrow> Inl e | Inr ys \<Rightarrow> Inr (y # ys)))"

section \<open>Envelopes and responses (server.js)\<close>

record tsunami_entry =
  entry_id :: jsval
  title :: jsval
  updated :: jsval
  summary :: jsval
  link :: jsval

record volcano_entry =
  name :: utf16
  status :: utf16

datatype payload =
    Raw jsval
  | TsunamiEntries "tsunami_entry list"
  | VolcanoEntries "volcano_entry list"

text \<open>
  The object literal handed to \<open>res.json\<close>. A field is \<open>None\<close> when the literal does
  not have that key. The \<open>data\<close> of the pass-through routes is \<open>r.data\<close> of axios,
  which is a value for every response (the empty string for an empty body).
\<close>

record envelope =
  ok :: bool
  source :: "string option"
  data :: "payload option"
  error :: "string option"

record response =
  status :: nat
  body :: envelope

text \<open>\<open>res.json(obj)\<close> answers with status 200, \<open>res.status(c).json(obj)\<close> with \<open>c\<close>.\<close>

definition res_json :: "envelope \<Rightarrow> response" where
  "res_json obj = \<lparr>status = 200, body = obj\<rparr>"

definition res_status_json :: "nat \<Rightarrow> envelope \<Rightarrow> response" where
  "res_status_json c obj = \<lparr>status = c, body = obj\<rparr>"

text \<open>
  The outbound call. \<open>axios.get(url, config)\<close> is the environment: a function from
  the request to either the exception it rejects with or the \<open>data\<close> of the response
  it resolves with.
\<close>

datatype param = PText string | PInt int | PJson jsval

record http_request =
  url :: string
  params :: "(string \<times> param) list"
  timeout :: nat

type_synonym axios = "http_request \<Rightarrow> js_exn + jsval"

subsection \<open>/api/earthquakes\<close>

definition earthquakes_request :: http_request where
  "earthquakes_request =
     \<lparr>url = ''https://earthquake.usgs.gov/earthquakes/feed/v1.0/summary/all_day.geojson'',
      params = [], timeout = 10000\<rparr>"

definition earthquakes_try :: "axios \<Rightarrow> js_exn + response" where
  "earthquakes_try axios_get =
     bind_exn (axios_get earthquakes_request) (\<lambda>r_data.
       Inr (res_json \<lparr>ok = True, source = Some ''usgs'', data = Some (Raw r_data), error = None\<rparr>))"

definition earthquakes_handler :: "axios \<Rightarrow> response" where
  "earthquakes_handler axios_get =
     (case earthquakes_try axios_get of
        Inr res \<Rightarrow> res
      | Inl err \<Rightarrow> res_status_json 500
          \<lparr>ok = False, source = None, data = None, error = Some ''Failed to fetch earthquakes''\<rparr>)"

subsection \<open>/api/tsunami\<close>

definition tsunami_request :: http_request where
  "tsunami_request =
     \<lparr>url = ''https://www.tsunami.gov/events/xml/PAAQAtom.xml'', params = [], timeout = 10000\<rparr>"

text \<open>
  \<open>parsed.feed && parsed.feed.entry ? (Array.isArray(parsed.feed.entry) ?
  parsed.feed.entry : [parsed.feed.entry]) : []\<close>
\<close>

definition feed_entries :: "jsval \<Rightarrow> js_exn + jsval list" where
  "feed_entries parsed =
     bind_exn (js_get parsed ''feed'') (\<lambda>feed.
       if truthy feed then
         bind_exn (js_get feed ''entry'') (\<lambda>entry.
           if truthy entry then
             (case entry of JArr es \<Rightarrow> Inr es | _ \<Rightarrow> Inr [entry])
           else Inr [])
       else Inr [])"

text \<open>\<open>e.summary && e.summary._ ? e.summary._ : (e.summary || '')\<close>\<close>

definition entry_summary :: "jsval \<Rightarrow> js_exn + jsval" where
  "entry_summary e =
     bind_exn (js_get e ''summary'') (\<lambda>s.
       bind_exn (if truthy s then js_get s ''_'' else Inr s) (\<lambda>c.
         if truthy c then js_get s ''_''
         else Inr (if truthy s then s else JStr [])))"

text \<open>
  \<open>Array.isArray(e.link) ? e.link[0].$.href
     : (e.link && e.link.$ && e.link.$.href) || ''\<close>
\<close>

definition entry_link :: "jsval \<Rightarrow> js_exn + jsval" where
  "entry_link e =
     bind_exn (js_get e ''link'') (\<lambda>l.
       if is_array l then
         bind_exn (js_at0 l) (\<lambda>first.
           bind_exn (js_get first ''$'') (\<lambda>attrs. js_get attrs ''href''))
       else
         bind_exn
           (if truthy l then
              bind_exn (js_get l ''$'') (\<lambda>attrs.
                if truthy attrs then js_get attrs ''href'' else Inr attrs)
            else Inr l)
           (\<lambda>h. Inr (if truthy h then h else JStr [])))"

definition normalize_entry :: "jsval \<Rightarrow> js_exn + tsunami_entry" where
  "normalize_entry e =
     bind_exn (js_get e ''id'') (\<lambda>i.
     bind_exn (js_get e ''title'') (\<lambda>t.
     bind_exn (js_get e ''updated'') (\<lambda>u.
     bind_exn (entry_summary e) (\<lambda>s.
     bind_exn (entry_link e) (\<lambda>l.
       Inr \<lparr>entry_id = i, title = t, updated = u, summary = s, link = l\<rparr>)))))"

text \<open>
  \<open>parse\<close> is \<open>parser.parseStringPromise\<close> of xml2js with \<open>explicitArray: false\<close>:
  it rejects or resolves with the object tree of the document.
\<close>

definition tsunami_try :: "(jsval \<Rightarrow> js_exn + jsval) \<Rightarrow> axios \<Rightarrow> js_exn + response" where
  "tsunami_try parse axios_get =
     bind_exn (axios_get tsunami_request) (\<lambda>r_data.
     bind_exn (parse r_data) (\<lambda>parsed.
     bind_exn (feed_entries parsed) (\<lambda>entries.
     bind_exn (js_map normalize_entry entries) (\<lambda>out.
       Inr (res_json \<lparr>ok = True, source = Some ''tsunami.gov'',
                      data = Some (TsunamiEntries out), error = None\<rparr>)))))"

definition tsunami_handler :: "(jsval \<Rightarrow> js_exn + jsval) \<Rightarrow> axios \<Rightarrow> response" where
  "tsunami_handler parse axios_get =
     (case tsunami_try parse axios_get of
        Inr res \<Rightarrow> res
      | Inl err \<Rightarrow> res_status_json 500
          \<lparr>ok = False, source = None, data = None, error = Some ''Failed to fetch tsunami feed''\<rparr>)"

subsection \<open>/api/volcanoes\<close>

text \<open>
  What the handler reads from the document that \<open>cheerio.load\<close> builds: for every
  \<open>table tr\<close> the texts of its \<open>td\<close> cells, and the text of every \<open>li\<close>.
\<close>

record html_doc =
  table_rows :: "utf16 list list"
  list_items :: "utf16 list"

text \<open>\<open>String.prototype.trim\<close> strips WhiteSpace and LineTerminator code units.\<close>

definition js_whitespace :: "16 word \<Rightarrow> bool" where
  "js_whitespace c \<longleftrightarrow>
     c = 0x9 \<or> c = 0xA \<or> c = 0xB \<or> c = 0xC \<or> c = 0xD \<or> c = 0x20 \<or> c = 0xA0 \<or>
     c = 0x1680 \<or> (0x2000 \<le> c \<and> c \<le> 0x200A) \<or> c = 0x2028 \<or> c = 0x2029 \<or>
     c = 0x202F \<or> c = 0x205F \<or> c = 0x3000 \<or> c = 0xFEFF"

definition trim :: "utf16 \<Rightarrow> utf16" where
  "trim s = rev (dropWhile js_whitespace (rev (dropWhile js_whitespace s)))"

text \<open>\<open>$(tds[i]).text()\<close>: the empty string when the row has no such cell.\<close>

definition cell_text :: "utf16 list \<Rightarrow> nat \<Rightarrow> utf16" where
  "cell_text tds i = (if i < length tds then tds ! i else [])"

definition volcanoes_request :: http_request where
  "volcanoes_request =
     \<lparr>url = ''https://volcano.si.edu/gvp_currenteruptions.cfm'', params = [], timeout = 10000\<rparr>"

text \<open>The callback of \<open>$('table tr').each\<close>, with \<open>eruptions\<close> passed through.\<close>

definition row_step :: "volcano_entry list \<Rightarrow> utf16 list \<Rightarrow> volcano_entry list" where
  "row_step eruptions tds =
     (if length eruptions \<ge> 8 then eruptions
      else if length tds \<ge> 1 then
        (let nm = trim (cell_text tds 0) in
         if nm = [] then eruptions
         else (let st = trim (cell_text tds 1) in
               eruptions @ [\<lparr>name = nm, status = st\<rparr>]))
      else eruptions)"

text \<open>The callback of \<open>$('li').each\<close>.\<close>

definition li_step :: "volcano_entry list \<Rightarrow> utf16 \<Rightarrow> volcano_entry list" where
  "li_step eruptions li =
     (if length eruptions \<ge> 8 then eruptions
      else (let text = trim li in
            if length text > 10 then eruptions @ [\<lparr>name = take 60 text, status = []\<rparr>]
            else eruptions))"

definition scan_rows :: "html_doc \<Rightarrow> volcano_entry list" where
  "scan_rows doc = foldl row_step [] (table_rows doc)"

definition scan_items :: "volcano_entry list \<Rightarrow> html_doc \<Rightarrow> volcano_entry list" where
  "scan_items eruptions doc = foldl li_step eruptions (list_items doc)"

definition extract_eruptions :: "html_doc \<Rightarrow> volcano_entry list" where
  "extract_eruptions doc =
     (let eruptions = scan_rows doc in
      if length eruptions = 0 then scan_items eruptions doc else eruptions)"

definition volcanoes_try :: "(jsval \<Rightarrow> js_exn + html_doc) \<Rightarrow> axios \<Rightarrow> js_exn + response" where
  "volcanoes_try load axios_get =
     bind_exn (axios_get volcanoes_request) (\<lambda>r_data.
     bind_exn (load r_data) (\<lambda>doc.
       Inr (res_json \<lparr>ok = True, source = Some ''gvp'',
                      data = Some (VolcanoEntries (take 8 (extract_eruptions doc))),
                      error = None\<rparr>)))"

definition volcanoes_handler :: "(jsval \<Rightarrow> js_exn + html_doc) \<Rightarrow> axios \<Rightarrow> response" where
  "volcanoes_handler load axios_get =
     (case volcanoes_try load axios_get of
        Inr res \<Rightarrow> res
      | Inl err \<Rightarrow> res_status_json 500
          \<lparr>ok = False, source = None, data = None, error = Some ''Failed to fetch volcano info''\<rparr>)"

subsection \<open>/api/floods\<close>

definition floods_request :: http_request where
  "floods_request =
     \<lparr>url = ''https://api.reliefweb.int/v2/reports'',
      params = [(''appname'', PText ''rtddr-demo''),
                (''limit'', PInt 6),
                (''sort'', PText ''date:desc''),
                (''query'', PJson (JObj [(''query'',
                   JObj [(''value'', JStr (utf16_of ''flood'')),
                         (''operator'', JStr (utf16_of ''OR''))])]))],
      timeout = 12000\<rparr>"

definition floods_try :: "axios \<Rightarrow> js_exn + response" where
  "floods_try axios_get =
     bind_exn (axios_get floods_request) (\<lambda>r_data.
       Inr (res_json \<lparr>ok = True, source = Some ''reliefweb'', data = Some (Raw r_data), error = None\<rparr>))"

definition floods_handler :: "axios \<Rightarrow> response" where
  "floods_handler axios_get =
     (case floods_try axios_get of
        Inr res \<Rightarrow> res
      | Inl err \<Rightarrow> res_status_json 500
          \<lparr>ok = False, source = None, data = None, error = Some ''Failed to fetch flood reports''\<rparr>)"

section \<open>The frontend (app.js)\<close>

text \<open>
  \<open>fetchJson\<close>: the parsed body of a 2xx response, \<open>null\<close> for any other status
  and when the fetch itself fails (\<open>None\<close> on both sides).
\<close>

definition fetchJson :: "response option \<Rightarrow> envelope option" where
  "fetchJson r =
     (case r of
        None \<Rightarrow> None
      | Some res \<Rightarrow> if 200 \<le> status res \<and> status res \<le> 299 then Some (body res) else None)"

subsection \<open>Earthquake list and markers\<close>

text \<open>
  A GeoJSON feature of the USGS feed, with the fields the renderer reads.
  \<open>properties.mag\<close> and \<open>properties.place\<close> are \<open>null\<close> (\<open>None\<close>) or a value;
  magnitudes are finite numbers.
\<close>

record feature =
  mag :: "real option"
  place :: "string option"
  lon :: real
  lat :: real

text \<open>ToNumber of \<open>properties.mag\<close>, as the subtraction in the comparator applies it.\<close>

definition mag_number :: "feature \<Rightarrow> real" where
  "mag_number f = (case mag f of None \<Rightarrow> 0 | Some m \<Rightarrow> m)"

text \<open>\<open>(a,b) => b.properties.mag - a.properties.mag\<close>\<close>

definition by_mag_desc :: "feature \<Rightarrow> feature \<Rightarrow> real" where
  "by_mag_desc a b = mag_number b - mag_number a"

text \<open>
  \<open>Array.prototype.sort\<close> with a comparator is stable: for a consistent comparator
  its result is the one computed by inserting each element, from the last to the
  first, in front of the first element it does not come after.
\<close>

fun sort_insert :: "('a \<Rightarrow> 'a \<Rightarrow> real) \<Rightarrow> 'a \<Rightarrow> 'a list \<Rightarrow> 'a list" where
  "sort_insert cmp x [] = [x]"
| "sort_insert cmp x (y # ys) =
     (if cmp x y \<le> 0 then x # y # ys else y # sort_insert cmp x ys)"

definition js_sort :: "('a \<Rightarrow> 'a \<Rightarrow> real) \<Rightarrow> 'a list \<Rightarrow> 'a list" where
  "js_sort cmp xs = foldr (sort_insert cmp) xs []"

record quake_view =
  shown_mag :: real
  shown_place :: string
  color :: string
  radius :: real
  marker_lat :: real
  marker_lon :: real

text \<open>\<open>mag >= 5 ? 'red' : (mag >= 3 ? 'orange' : 'yellow')\<close>\<close>

definition marker_color :: "real \<Rightarrow> string" where
  "marker_color m = (if m \<ge> 5 then ''red'' else (if m \<ge> 3 then ''orange'' else ''yellow''))"

text \<open>The body of the \<open>forEach\<close> callback: the list entry and the circle marker.\<close>

definition render_feature :: "feature \<Rightarrow> quake_view" where
  "render_feature f =
     (let m = (case mag f of None \<Rightarrow> 0 | Some v \<Rightarrow> if v \<noteq> 0 then v else 0);
          p = (case place f of None \<Rightarrow> ''Unknown'' | Some s \<Rightarrow> if s \<noteq> [] then s else ''Unknown'');
          c = marker_color m
      in \<lparr>shown_mag = m, shown_place = p, color = c, radius = 4 + max 0 m,
          marker_lat = lat f, marker_lon = lon f\<rparr>)"

text \<open>\<open>features.sort(...).slice(0,50).forEach(...)\<close>\<close>

definition render_earthquakes :: "feature list \<Rightarrow> quake_view list" where
  "render_earthquakes features = map render_feature (take 50 (js_sort by_mag_desc features))"

subsection \<open>Flood list\<close>

record flood_report =
  report_title :: jsval
  report_url :: jsval

text \<open>
  \<open>r.fields && r.fields.title ? r.fields.title : 'Report'\<close> and
  \<open>r.fields && r.fields.url ? r.fields.url[0] : null\<close>
\<close>

definition flood_item :: "jsval \<Rightarrow> js_exn + flood_report" where
  "flood_item r =
     bind_exn (js_get r ''fields'') (\<lambda>fields.
     bind_exn (if truthy fields then js_get fields ''title'' else Inr fields) (\<lambda>ct.
     bind_exn (if truthy ct then js_get fields ''title'' else Inr (JStr (utf16_of ''Report''))) (\<lambda>t.
     bind_exn (if truthy fields then js_get fields ''url'' else Inr fields) (\<lambda>cu.
     bind_exn (if truthy cu then bind_exn (js_get fields ''url'') js_at0 else Inr JNull) (\<lambda>u.
       Inr \<lparr>report_title = t, report_url = u\<rparr>)))))"

datatype flood_view = Unavailable | Reports "flood_report list"

text \<open>
  \<open>if (flood && flood.ok && flood.data && flood.data.data) flood.data.data.forEach(...)\<close>;
  \<open>forEach\<close> exists on arrays only.
\<close>

definition render_floods :: "envelope option \<Rightarrow> js_exn + flood_view" where
  "render_floods flood =
     (case flood of
        None \<Rightarrow> Inr Unavailable
      | Some env \<Rightarrow>
          if ok env then
            (case data env of
               Some (Raw d) \<Rightarrow>
                 if truthy d then
                   bind_exn (js_get d ''data'') (\<lambda>dd.
                     if truthy dd then
                       (case dd of
                          JArr rs \<Rightarrow> bind_exn (js_map flood_item rs) (\<lambda>items. Inr (Reports items))
                        | _ \<Rightarrow> Inl TypeError)
                     else Inr Unavailable)
                 else Inr Unavailable
             | _ \<Rightarrow> Inr Unavailable)
          else Inr Unavailable)"

section \<open>The envelope contract\<close>

text \<open>
  The invariant of the data model: \<open>ok = true\<close> comes with \<open>source\<close> and \<open>data\<close>
  and without \<open>error\<close>; \<open>ok = false\<close> comes with \<open>error\<close> and without \<open>data\<close>.
\<close>

definition envelope_inv :: "envelope \<Rightarrow> bool" where
  "envelope_inv e \<longleftrightarrow>
     (ok e \<longrightarrow> source e \<noteq> None \<and> data e \<noteq> None \<and> error e = None) \<and>
     (\<not> ok e \<longrightarrow> error e \<noteq> None \<and> data e = None)"

lemma bind_exn_simps [simp]:
  "bind_exn (Inl x) f = Inl x"
  "bind_exn (Inr v) f = f v"
  by (simp_all add: bind_exn_def)

lemmas handler_defs =
  earthquakes_handler_def earthquakes_try_def tsunami_handler_def tsunami_try_def
  volcanoes_handler_def volcanoes_try_def floods_handler_def floods_try_def
  res_json_def res_status_json_def

text \<open>
  Claim C1. For each of the four feed routes and for every outcome of the upstream
  call (and of the parser the route runs on the body), the envelope the handler
  answers with satisfies the invariant: with \<open>ok = true\<close> the fields \<open>source\<close> and
  \<open>data\<close> are present and \<open>error\<close> is not; with \<open>ok = false\<close> the field \<open>error\<close>
  is present and \<open>data\<close> is not.
\<close>

theorem envelope_invariant_all_routes:
  "envelope_inv (body (earthquakes_handler axios_get)) \<and>
   envelope_inv (body (tsunami_handler parse axios_get)) \<and>
   envelope_inv (body (volcanoes_handler load axios_get)) \<and>
   envelope_inv (body (floods_handler axios_get))"
  by (simp add: envelope_inv_def handler_defs bind_exn_def split: sum.splits)

theorem envelope_invariant_all_routes_witness:
  "(ok (body (earthquakes_handler (\<lambda>req. Inr JNull))) \<and>
    envelope_inv (body (earthquakes_handler (\<lambda>req. Inr JNull))) \<and>
    source (body (earthquakes_handler (\<lambda>req. Inr JNull))) = Some ''usgs'') \<and>
   (\<not> ok (body (floods_handler (\<lambda>req. Inl TimeoutError))) \<and>
    envelope_inv (body (floods_handler (\<lambda>req. Inl TimeoutError))) \<and>
    error (body (floods_handler (\<lambda>req. Inl TimeoutError))) = Some ''Failed to fetch flood reports'')"
  using envelope_invariant_all_routes [of "\<lambda>req. Inr JNull"]
    envelope_invariant_all_routes [of "\<lambda>req. Inl TimeoutError"]
  by (simp add: handler_defs)

text \<open>
  Claim C2 as stated fails on the two pass-through routes. The earthquake and flood
  handlers do not parse the body: a body that is not JSON is what axios resolves
  with (the text it received), and the handler answers 200 with \<open>ok: true\<close> and
  that text as data, not 500.
\<close>

theorem malformed_body_is_passed_through:
  "earthquakes_handler (\<lambda>req. Inr (JStr (utf16_of ''<html>Service Unavailable''))) =
     \<lparr>status = 200, body = \<lparr>ok = True, source = Some ''usgs'',
        data = Some (Raw (JStr (utf16_of ''<html>Service Unavailable''))), error = None\<rparr>\<rparr> \<and>
   floods_handler (\<lambda>req. Inr (JStr (utf16_of ''<html>Service Unavailable''))) =
     \<lparr>status = 200, body = \<lparr>ok = True, source = Some ''reliefweb'',
        data = Some (Raw (JStr (utf16_of ''<html>Service Unavailable''))), error = None\<rparr>\<rparr> \<and>
   earthquakes_handler (\<lambda>req. Inr (JStr (utf16_of ''<html>Service Unavailable''))) \<noteq>
     \<lparr>status = 500, body = \<lparr>ok = False, source = None, data = None,
                              error = Some ''Failed to fetch earthquakes''\<rparr>\<rparr> \<and>
   floods_handler (\<lambda>req. Inr (JStr (utf16_of ''<html>Service Unavailable''))) \<noteq>
     \<lparr>status = 500, body = \<lparr>ok = False, source = None, data = None,
                              error = Some ''Failed to fetch flood reports''\<rparr>\<rparr>"
  by (simp add: handler_defs)

text \<open>
  Claim C2, amended. On each of the four feed routes every failure that the handler
  meets as an exception gives the same answer: status 500 with
  \<open>{ok: false, error: msg}\<close>, where \<open>msg\<close> is the one error string of the route,
  whatever the cause \<open>x\<close>, and no exception leaves the handler. On every route that
  is the request rejected (no connection, timeout, a status outside 2xx); on the
  tsunami and volcano routes, which parse the body, also the body rejected by the
  parser, and on the tsunami route an exception while the entries are reshaped. The
  earthquake and flood routes do not parse the body: they answer 500 exactly when the
  request is rejected, and pass on whatever body the request resolves with.
\<close>

theorem failures_collapse_to_route_error:
  "(axios_get earthquakes_request = Inl x \<longrightarrow>
      earthquakes_handler axios_get =
        \<lparr>status = 500, body = \<lparr>ok = False, source = None, data = None,
                                 error = Some ''Failed to fetch earthquakes''\<rparr>\<rparr>) \<and>
   (axios_get tsunami_request = Inl x \<or>
    (\<exists>b. axios_get tsunami_request = Inr b \<and> parse b = Inl x) \<or>
    tsunami_try parse axios_get = Inl x \<longrightarrow>
      tsunami_handler parse axios_get =
        \<lparr>status = 500, body = \<lparr>ok = False, source = None, data = None,
                                 error = Some ''Failed to fetch tsunami feed''\<rparr>\<rparr>) \<and>
   (axios_get volcanoes_request = Inl x \<or>
    (\<exists>b. axios_get volcanoes_request = Inr b \<and> load b = Inl x) \<longrightarrow>
      volcanoes_handler load axios_get =
        \<lparr>status = 500, body = \<lparr>ok = False, source = None, data = None,
                                 error = Some ''Failed to fetch volcano info''\<rparr>\<rparr>) \<and>
   (axios_get floods_request = Inl x \<longrightarrow>
      floods_handler axios_get =
        \<lparr>status = 500, body = \<lparr>ok = False, source = None, data = None,
                                 error = Some ''Failed to fetch flood reports''\<rparr>\<rparr>) \<and>
   (axios_get earthquakes_request = Inr d \<longrightarrow>
      earthquakes_handler axios_get =
        \<lparr>status = 200, body = \<lparr>ok = True, source = Some ''usgs'',
                                 data = Some (Raw d), error = None\<rparr>\<rparr>) \<and>
   (axios_get floods_request = Inr d \<longrightarrow>
      floods_handler axios_get =
        \<lparr>status = 200, body = \<lparr>ok = True, source = Some ''reliefweb'',
                                 data = Some (Raw d), error = None\<rparr>\<rparr>) \<and>
   (earthquakes_handler axios_get =
        \<lparr>status = 500, body = \<lparr>ok = False, source = None, data = None,
                                 error = Some ''Failed to fetch earthquakes''\<rparr>\<rparr>
      \<longleftrightarrow> (\<exists>y. axios_get earthquakes_request = Inl y)) \<and>
   (floods_handler axios_get =
        \<lparr>status = 500, body = \<lparr>ok = False, source = None, data = None,
                                 error = Some ''Failed to fetch flood reports''\<rparr>\<rparr>
      \<longleftrightarrow> (\<exists>y. axios_get floods_request = Inl y)) \<and>
   (tsunami_handler parse axios_get =
        \<lparr>status = 500, body = \<lparr>ok = False, source = None, data = None,
                                 error = Some ''Failed to fetch tsunami feed''\<rparr>\<rparr>
      \<longleftrightarrow> (\<exists>y. tsunami_try parse axios_get = Inl y)) \<and>
   (volcanoes_handler load axios_get =
        \<lparr>status = 500, body = \<lparr>ok = False, source = None, data = None,
                                 error = Some ''Failed to fetch volcano info''\<rparr>\<rparr>
      \<longleftrightarrow> (\<exists>y. volcanoes_try load axios_get = Inl y))"
proof (intro conjI)
  show "earthquakes_handler axios_get =
        \<lparr>status = 500, body = \<lparr>ok = False, source = None, data = None,
                                 error = Some ''Failed to fetch earthquakes''\<rparr>\<rparr>
      \<longleftrightarrow> (\<exists>y. axios_get earthquakes_request = Inl y)"
    by (cases "axios_get earthquakes_request") (simp_all add: handler_defs)
  show "floods_handler axios_get =
        \<lparr>status = 500, body = \<lparr>ok = False, source = None, data = None,
                                 error = Some ''Failed to fetch flood reports''\<rparr>\<rparr>
      \<longleftrightarrow> (\<exists>y. axios_get floods_request = Inl y)"
    by (cases "axios_get floods_request") (simp_all add: handler_defs)
  show "tsunami_handler parse axios_get =
        \<lparr>status = 500, body = \<lparr>ok = False, source = None, data = None,
                                 error = Some ''Failed to fetch tsunami feed''\<rparr>\<rparr>
      \<longleftrightarrow> (\<exists>y. tsunami_try parse axios_get = Inl y)"
    by (cases "tsunami_try parse axios_get")
      (auto simp add: tsunami_handler_def res_status_json_def tsunami_try_def res_json_def
        bind_exn_def split: sum.splits)
  show "volcanoes_handler load axios_get =
        \<lparr>status = 500, body = \<lparr>ok = False, source = None, data = None,
                                 error = Some ''Failed to fetch volcano info''\<rparr>\<rparr>
      \<longleftrightarrow> (\<exists>y. volcanoes_try load axios_get = Inl y)"
    by (cases "volcanoes_try load axios_get")
      (auto simp add: volcanoes_handler_def res_status_json_def volcanoes_try_def res_json_def
        bind_exn_def split: sum.splits)
qed (auto simp add: handler_defs)

theorem failures_collapse_to_route_error_witness:
  "earthquakes_handler (\<lambda>req. Inl TimeoutError) =
     \<lparr>status = 500, body = \<lparr>ok = False, source = None, data = None,
                              error = Some ''Failed to fetch earthquakes''\<rparr>\<rparr> \<and>
   tsunami_handler (\<lambda>b. Inl ParseError) (\<lambda>req. Inr (JStr [])) =
     \<lparr>status = 500, body = \<lparr>ok = False, source = None, data = None,
                              error = Some ''Failed to fetch tsunami feed''\<rparr>\<rparr> \<and>
   tsunami_handler (\<lambda>b. Inr JNull) (\<lambda>req. Inr (JStr [])) =
     \<lparr>status = 500, body = \<lparr>ok = False, source = None, data = None,
                              error = Some ''Failed to fetch tsunami feed''\<rparr>\<rparr> \<and>
   volcanoes_handler (\<lambda>b. Inl ParseError) (\<lambda>req. Inr (JNum 1)) =
     \<lparr>status = 500, body = \<lparr>ok = False, source = None, data = None,
                              error = Some ''Failed to fetch volcano info''\<rparr>\<rparr> \<and>
   volcanoes_handler (\<lambda>b. Inl ParseError) (\<lambda>req. Inl NetworkError) =
     \<lparr>status = 500, body = \<lparr>ok = False, source = None, data = None,
                              error = Some ''Failed to fetch volcano info''\<rparr>\<rparr> \<and>
   floods_handler (\<lambda>req. Inl (HttpStatusError 503)) =
     \<lparr>status = 500, body = \<lparr>ok = False, source = None, data = None,
                              error = Some ''Failed to fetch flood reports''\<rparr>\<rparr> \<and>
   earthquakes_handler (\<lambda>req. Inr (JObj [(''features'', JArr [])])) =
     \<lparr>status = 200, body = \<lparr>ok = True, source = Some ''usgs'',
        data = Some (Raw (JObj [(''features'', JArr [])])), error = None\<rparr>\<rparr> \<and>
   floods_handler (\<lambda>req. Inr (JObj [(''data'', JArr [])])) =
     \<lparr>status = 200, body = \<lparr>ok = True, source = Some ''reliefweb'',
        data = Some (Raw (JObj [(''data'', JArr [])])), error = None\<rparr>\<rparr>"
proof -
  have t: "tsunami_try (\<lambda>b. Inr JNull) (\<lambda>req. Inr (JStr [])) = Inl TypeError"
    by (simp add: tsunami_try_def feed_entries_def)
  show ?thesis
    using
      failures_collapse_to_route_error
        [where axios_get = "\<lambda>req. Inl TimeoutError" and x = TimeoutError]
      failures_collapse_to_route_error
        [where axios_get = "\<lambda>req. Inr (JStr [])" and parse = "\<lambda>b. Inl ParseError"
           and x = ParseError]
      failures_collapse_to_route_error
        [where axios_get = "\<lambda>req. Inr (JStr [])" and parse = "\<lambda>b. Inr JNull"
           and x = TypeError]
      failures_collapse_to_route_error
        [where axios_get = "\<lambda>req. Inr (JNum 1)" and load = "\<lambda>b. Inl ParseError"
           and x = ParseError]
      failures_collapse_to_route_error
        [where axios_get = "\<lambda>req. Inl NetworkError" and load = "\<lambda>b. Inl ParseError"
           and x = NetworkError]
      failures_collapse_to_route_error
        [where axios_get = "\<lambda>req. Inl (HttpStatusError 503)" and x = "HttpStatusError 503"]
      failures_collapse_to_route_error
        [where axios_get = "\<lambda>req. Inr (JObj [(''features'', JArr [])])"
           and d = "JObj [(''features'', JArr [])]"]
      failures_collapse_to_route_error
        [where axios_get = "\<lambda>req. Inr (JObj [(''data'', JArr [])])"
           and d = "JObj [(''data'', JArr [])]"]
    by (simp add: t)
qed

section \<open>The tsunami normalizer\<close>

lemma truthy_js_get: "truthy v \<Longrightarrow> \<exists>w. js_get v k = Inr w"
  by (cases v) auto

lemma entry_summary_total:
  assumes "js_get e k = Inr v"
  shows "\<exists>s. entry_summary e = Inr s"
proof -
  from assms obtain s where s: "js_get e ''summary'' = Inr s"
    by (cases e) auto
  show ?thesis
  proof (cases "truthy s")
    case True
    then obtain c where "js_get s ''_'' = Inr c"
      using truthy_js_get by blast
    with s True show ?thesis
      by (simp add: entry_summary_def)
  next
    case False
    with s show ?thesis
      by (simp add: entry_summary_def)
  qed
qed

lemma normalize_entry_link:
  assumes "js_get e k = Inr v" and "entry_link e = Inr h"
  shows "\<exists>t. normalize_entry e = Inr t \<and> link t = h"
proof -
  from assms(1) obtain i ti u where
    "js_get e ''id'' = Inr i" "js_get e ''title'' = Inr ti" "js_get e ''updated'' = Inr u"
    by (cases e) auto
  moreover from assms(1) obtain s where "entry_summary e = Inr s"
    using entry_summary_total by blast
  ultimately show ?thesis
    using assms(2) by (simp add: normalize_entry_def)
qed




lemma entry_link_first_href:
  "(js_get e ''link'' = Inr (JArr (l # ls)) \<and> js_get l ''$'' = Inr a \<and>
    js_get a ''href'' = Inr h \<longrightarrow>
      (\<exists>t. normalize_entry e = Inr t \<and> link t = h)) \<and>
   (js_get e ''link'' = Inr l \<and> \<not> is_array l \<and> js_get l ''$'' = Inr a \<and>
    js_get a ''href'' = Inr (JStr s) \<longrightarrow>
      (\<exists>t. normalize_entry e = Inr t \<and> link t = JStr s))"
proof (intro conjI impI)
  assume h: "js_get e ''link'' = Inr (JArr (l # ls)) \<and> js_get l ''$'' = Inr a \<and>
    js_get a ''href'' = Inr h"
  then have "entry_link e = Inr h"
    by (simp add: entry_link_def)
  with h show "\<exists>t. normalize_entry e = Inr t \<and> link t = h"
    using normalize_entry_link by blast
next
  assume h: "js_get e ''link'' = Inr l \<and> \<not> is_array l \<and> js_get l ''$'' = Inr a \<and>
    js_get a ''href'' = Inr (JStr s)"
  then have a: "truthy a"
    by (cases a) (auto split: if_splits)
  from h have l: "truthy l"
    by (cases l; cases a) (auto split: if_splits option.splits)
  from h a l have "entry_link e = Inr (JStr s)"
    by (simp add: entry_link_def)
  with h show "\<exists>t. normalize_entry e = Inr t \<and> link t = JStr s"
    using normalize_entry_link by blast
qed

text \<open>
  Claim C4, at an entry whose link sequence starts with a link element that has no
  attribute (\<open><link/><link href="https://a.example/1"/>\<close>, for which xml2js builds
  \<open>['', {$: {href: 'https://a.example/1'}}]\<close>): the array branch reads
  \<open>e.link[0].$.href\<close> without the guard of the single-link branch, so the entry is
  not normalized at all. The read of \<open>href\<close> on \<open>undefined\<close> throws, and the
  route answers 500 for the whole feed. The same first element as the only link of
  an entry is normalized to the empty string.
\<close>

theorem tsunami_link_sequence_first_without_attributes_throws:
  "normalize_entry
     (JObj [(''title'', JStr (utf16_of ''Tsunami Information'')),
            (''link'', JArr [JStr [],
                             JObj [(''$'', JObj [(''href'', JStr (utf16_of ''https://a.example/1''))])]])]) = Inl TypeError \<and>
   tsunami_handler
     (\<lambda>b. Inr (JObj [(''feed'', JObj [(''entry'',
        JObj [(''title'', JStr (utf16_of ''Tsunami Information'')),
            (''link'', JArr [JStr [],
                             JObj [(''$'', JObj [(''href'', JStr (utf16_of ''https://a.example/1''))])]])])])]))
     (\<lambda>req. Inr (JStr [])) =
     \<lparr>status = 500, body = \<lparr>ok = False, source = None, data = None,
                              error = Some ''Failed to fetch tsunami feed''\<rparr>\<rparr> \<and>
   normalize_entry
     (JObj [(''title'', JStr (utf16_of ''Tsunami Information'')), (''link'', JStr [])]) =
     Inr \<lparr>entry_id = JUndef, title = JStr (utf16_of ''Tsunami Information''), updated = JUndef,
          summary = JStr [], link = JStr []\<rparr>"
  by (simp add: normalize_entry_def entry_summary_def entry_link_def tsunami_handler_def
      tsunami_try_def feed_entries_def res_status_json_def)

lemma entry_link_without_href:
  assumes "js_get e ''link'' = Inr l" and "\<not> is_array l"
    and "l = JUndef \<or> (\<exists>a. js_get l ''$'' = Inr a \<and> (\<not> truthy a \<or> js_get a ''href'' = Inr JUndef))"
  shows "entry_link e = Inr (JStr [])"
  using assms by (cases "truthy l") (auto simp add: entry_link_def)

lemma entry_summary_missing:
  "js_get e ''summary'' = Inr JUndef \<Longrightarrow> entry_summary e = Inr (JStr [])"
  by (simp add: entry_summary_def)

lemma entry_summary_inner_text:
  assumes "js_get e ''summary'' = Inr s" and "js_get s ''_'' = Inr c" and "truthy c"
  shows "entry_summary e = Inr c"
proof -
  from assms(2,3) have "truthy s"
    by (cases s) auto
  with assms show ?thesis
    by (simp add: entry_summary_def)
qed

text \<open>
  Claim C10, at a summary node that carries an attribute and no text of its own
  (\<open><summary type="xhtml"/>\<close>, for which xml2js builds \<open>{$: {type: 'xhtml'}}\<close>): the
  entry is emitted with the empty string as link, and its summary is the node
  object itself, neither an inner text nor the empty string.
\<close>

theorem tsunami_summary_without_text_is_the_node:
  "normalize_entry
     (JObj [(''title'', JStr (utf16_of ''Tsunami Information'')),
            (''summary'', JObj [(''$'', JObj [(''type'', JStr (utf16_of ''xhtml''))])])]) =
   Inr \<lparr>entry_id = JUndef, title = JStr (utf16_of ''Tsunami Information''), updated = JUndef,
        summary = JObj [(''$'', JObj [(''type'', JStr (utf16_of ''xhtml''))])],
        link = JStr []\<rparr>"
  by (simp add: normalize_entry_def entry_summary_def entry_link_def)

section \<open>The volcano scraper\<close>

lemma row_step_length: "length acc \<le> 8 \<Longrightarrow> length (row_step acc tds) \<le> 8"
  by (simp add: row_step_def Let_def)

lemma foldl_row_step_length: "length acc \<le> 8 \<Longrightarrow> length (foldl row_step acc rows) \<le> 8"
  by (induction rows arbitrary: acc) (simp_all add: row_step_length)

lemma foldl_li_step:
  "length acc \<le> 8 \<Longrightarrow>
   foldl li_step acc lis =
     acc @ take (8 - length acc)
             (map (\<lambda>t. \<lparr>name = take 60 t, status = []\<rparr>)
                (filter (\<lambda>t. length t > 10) (map trim lis)))"
proof (induction lis arbitrary: acc)
  case Nil
  then show ?case by simp
next
  case (Cons li lis)
  show ?case
  proof (cases "length acc \<ge> 8")
    case True
    with Cons.prems have "length acc = 8" by simp
    moreover have "li_step acc li = acc"
      using True by (simp add: li_step_def)
    ultimately show ?thesis
      using Cons.IH [of acc] by simp
  next
    case False
    show ?thesis
    proof (cases "length (trim li) > 10")
      case True
      let ?e = "\<lparr>name = take 60 (trim li), status = []\<rparr>"
      have step: "li_step acc li = acc @ [?e]"
        using False True by (simp add: li_step_def Let_def)
      have "length (acc @ [?e]) \<le> 8"
        using False by simp
      from Cons.IH [OF this] step True False show ?thesis
        by (simp add: take_Cons' Suc_diff_Suc)
    next
      case short: False
      have "li_step acc li = acc"
        using False short by (simp add: li_step_def Let_def)
      with Cons.IH [OF Cons.prems] short show ?thesis by simp
    qed
  qed
qed

lemma extract_eruptions_length: "length (extract_eruptions doc) \<le> 8"
  by (simp add: extract_eruptions_def scan_items_def scan_rows_def Let_def
      foldl_row_step_length foldl_li_step)

text \<open>
  Claim C5. For every outcome of the request and every document, the volcano handler
  returns a response (no exception leaves it): either the error envelope of the route
  or a success envelope whose data list has at most 8 entries. When neither the table
  rows nor the list items give an entry, the result is \<open>{ok: true, source: "gvp",
  data: []}\<close>, not an error.
\<close>

theorem volcanoes_handler_bounded_or_error:
  "(volcanoes_handler load axios_get =
      \<lparr>status = 500, body = \<lparr>ok = False, source = None, data = None,
                               error = Some ''Failed to fetch volcano info''\<rparr>\<rparr> \<or>
    (\<exists>es. volcanoes_handler load axios_get =
        \<lparr>status = 200, body = \<lparr>ok = True, source = Some ''gvp'',
                                 data = Some (VolcanoEntries es), error = None\<rparr>\<rparr> \<and>
        length es \<le> 8)) \<and>
   (axios_get volcanoes_request = Inr b \<and> load b = Inr doc \<and>
    scan_rows doc = [] \<and> scan_items [] doc = [] \<longrightarrow>
      volcanoes_handler load axios_get =
        \<lparr>status = 200, body = \<lparr>ok = True, source = Some ''gvp'',
                                 data = Some (VolcanoEntries []), error = None\<rparr>\<rparr>)"
  by (auto simp add: volcanoes_handler_def volcanoes_try_def res_json_def res_status_json_def
      extract_eruptions_def bind_exn_def split: sum.splits)

theorem volcanoes_handler_bounded_or_error_witness:
  "volcanoes_handler
     (\<lambda>b. Inr \<lparr>table_rows = [[], [utf16_of ''  '']], list_items = [utf16_of ''Home'']\<rparr>)
     (\<lambda>req. Inr (JStr [])) =
   \<lparr>status = 200, body = \<lparr>ok = True, source = Some ''gvp'',
                            data = Some (VolcanoEntries []), error = None\<rparr>\<rparr>"
  using
    volcanoes_handler_bounded_or_error
      [where axios_get = "\<lambda>req. Inr (JStr [])" and b = "JStr []"
        and load = "\<lambda>b. Inr \<lparr>table_rows = [[], [utf16_of ''  '']], list_items = [utf16_of ''Home'']\<rparr>"
        and doc = "\<lparr>table_rows = [[], [utf16_of ''  '']], list_items = [utf16_of ''Home'']\<rparr>"]
  by (simp add: scan_rows_def scan_items_def row_step_def li_step_def cell_text_def trim_def
      js_whitespace_def utf16_of_def Let_def)

text \<open>
  Claim C6. The list-item fallback contributes only when the table rows give no entry.
  When it runs, the result has one entry for each list item whose trimmed text is
  longer than 10 code units, in document order, with the first 60 code units of that
  text as name and the empty string as status, and it stops at 8 entries.
\<close>

theorem volcano_fallback_only_without_rows:
  "(scan_rows doc \<noteq> [] \<longrightarrow> extract_eruptions doc = scan_rows doc) \<and>
   (scan_rows doc = [] \<longrightarrow>
      extract_eruptions doc =
        take 8 (map (\<lambda>t. \<lparr>name = take 60 t, status = []\<rparr>)
                 (filter (\<lambda>t. length t > 10) (map trim (list_items doc)))))"
  by (simp add: extract_eruptions_def scan_items_def foldl_li_step)

theorem volcano_fallback_only_without_rows_witness:
  "extract_eruptions
     \<lparr>table_rows = [[], [utf16_of ''  '']],
      list_items = [utf16_of ''  Etna volcano  '', utf16_of ''Home'', replicate 70 0x61]\<rparr> =
     [\<lparr>name = utf16_of ''Etna volcano'', status = []\<rparr>,
      \<lparr>name = replicate 60 0x61, status = []\<rparr>] \<and>
   extract_eruptions
     \<lparr>table_rows = [[utf16_of '' Kilauea '', utf16_of ''Erupting'']],
      list_items = [utf16_of ''  Etna volcano  '']\<rparr> =
     [\<lparr>name = utf16_of ''Kilauea'', status = utf16_of ''Erupting''\<rparr>]"
  using
    volcano_fallback_only_without_rows
      [of "\<lparr>table_rows = [[], [utf16_of ''  '']],
        list_items = [utf16_of ''  Etna volcano  '', utf16_of ''Home'', replicate 70 0x61]\<rparr>"]
    volcano_fallback_only_without_rows
      [of "\<lparr>table_rows = [[utf16_of '' Kilauea '', utf16_of ''Erupting'']],
        list_items = [utf16_of ''  Etna volcano  '']\<rparr>"]
  by (simp add: scan_rows_def row_step_def cell_text_def trim_def js_whitespace_def
      utf16_of_def Let_def)

section \<open>Flood reports\<close>

text \<open>
  Claim C7 as stated fails: the handler asks the upstream for at most 6 reports and
  passes the answer on as it is. When the upstream answers with 7 reports, the
  \<open>data.data\<close> array of the successful response has 7 entries, and the frontend
  renders all 7.
\<close>

theorem flood_data_is_not_truncated:
  "floods_handler (\<lambda>req. Inr (JObj [(''data'', JArr [JObj [], JObj [], JObj [], JObj [], JObj [], JObj [], JObj []])])) =
     \<lparr>status = 200, body = \<lparr>ok = True, source = Some ''reliefweb'',
        data = Some (Raw (JObj [(''data'', JArr [JObj [], JObj [], JObj [], JObj [], JObj [], JObj [], JObj []])])), error = None\<rparr>\<rparr> \<and>
   js_get (JObj [(''data'', JArr [JObj [], JObj [], JObj [], JObj [], JObj [], JObj [], JObj []])]) ''data'' =
     Inr (JArr [JObj [], JObj [], JObj [], JObj [], JObj [], JObj [], JObj []]) \<and>
   \<not> length [JObj [], JObj [], JObj [], JObj [], JObj [], JObj [], JObj []] \<le> 6 \<and>
   render_floods (fetchJson (Some
       (floods_handler (\<lambda>req. Inr (JObj [(''data'', JArr [JObj [], JObj [], JObj [], JObj [], JObj [], JObj [], JObj []])]))))) =
     Inr (Reports [
        \<lparr>report_title = JStr (utf16_of ''Report''), report_url = JNull\<rparr>,
        \<lparr>report_title = JStr (utf16_of ''Report''), report_url = JNull\<rparr>,
        \<lparr>report_title = JStr (utf16_of ''Report''), report_url = JNull\<rparr>,
        \<lparr>report_title = JStr (utf16_of ''Report''), report_url = JNull\<rparr>,
        \<lparr>report_title = JStr (utf16_of ''Report''), report_url = JNull\<rparr>,
        \<lparr>report_title = JStr (utf16_of ''Report''), report_url = JNull\<rparr>,
        \<lparr>report_title = JStr (utf16_of ''Report''), report_url = JNull\<rparr>])"
  by (simp add: floods_handler_def floods_try_def res_json_def render_floods_def fetchJson_def
      flood_item_def)

text \<open>
  Claim C7, amended. For every successful flood response the handler passes the
  upstream body on unmodified, so the \<open>data.data\<close> array has at most 6 entries
  whenever the upstream returns no more than the \<open>limit\<close> the handler requests; the
  frontend maps the entries of that array, in order, each to a \<open>{title, url}\<close> pair,
  where \<open>url\<close> is the first element of the entry's multi-valued URL field when that
  field is present and \<open>null\<close> when it is absent.
\<close>

theorem flood_passthrough_and_item_mapping:
  "(axios_get floods_request = Inr b \<longrightarrow>
      floods_handler axios_get =
        \<lparr>status = 200, body = \<lparr>ok = True, source = Some ''reliefweb'',
                                 data = Some (Raw b), error = None\<rparr>\<rparr> \<and>
      (js_get b ''data'' = Inr (JArr rs) \<longrightarrow>
         render_floods (fetchJson (Some (floods_handler axios_get))) =
           bind_exn (js_map flood_item rs) (\<lambda>items. Inr (Reports items)) \<and>
         (map_of (params floods_request) ''limit'' = Some (PInt n) \<and> int (length rs) \<le> n \<longrightarrow>
            length rs \<le> 6))) \<and>
   (js_get r ''fields'' = Inr f \<and> js_get f ''title'' = Inr t \<and>
    js_get f ''url'' = Inr (JArr (u # us)) \<longrightarrow>
      flood_item r = Inr \<lparr>report_title = (if truthy t then t else JStr (utf16_of ''Report'')),
                          report_url = u\<rparr>) \<and>
   (js_get r ''fields'' = Inr f \<and> js_get f ''title'' = Inr t \<and>
    js_get f ''url'' = Inr JUndef \<longrightarrow>
      flood_item r = Inr \<lparr>report_title = (if truthy t then t else JStr (utf16_of ''Report'')),
                          report_url = JNull\<rparr>)"
proof (intro conjI impI)
  assume b: "axios_get floods_request = Inr b"
  then show h: "floods_handler axios_get =
        \<lparr>status = 200, body = \<lparr>ok = True, source = Some ''reliefweb'',
                                 data = Some (Raw b), error = None\<rparr>\<rparr>"
    by (simp add: floods_handler_def floods_try_def res_json_def)
  {
    assume rs: "js_get b ''data'' = Inr (JArr rs)"
    then have "truthy b"
      by (cases b) (auto split: option.splits)
    with rs show "render_floods (fetchJson (Some (floods_handler axios_get))) =
           bind_exn (js_map flood_item rs) (\<lambda>items. Inr (Reports items))"
      by (simp add: h render_floods_def fetchJson_def)
  }
  {
    assume "map_of (params floods_request) ''limit'' = Some (PInt n) \<and> int (length rs) \<le> n"
    then show "length rs \<le> 6"
      by (simp add: floods_request_def)
  }
next
  assume h: "js_get r ''fields'' = Inr f \<and> js_get f ''title'' = Inr t \<and>
    js_get f ''url'' = Inr (JArr (u # us))"
  then have "truthy f"
    by (cases f) (auto split: if_splits)
  with h show "flood_item r =
      Inr \<lparr>report_title = (if truthy t then t else JStr (utf16_of ''Report'')), report_url = u\<rparr>"
    by (simp add: flood_item_def)
next
  assume h: "js_get r ''fields'' = Inr f \<and> js_get f ''title'' = Inr t \<and>
    js_get f ''url'' = Inr JUndef"
  then show "flood_item r =
      Inr \<lparr>report_title = (if truthy t then t else JStr (utf16_of ''Report'')), report_url = JNull\<rparr>"
    by (cases f) (auto simp add: flood_item_def split: option.splits)
qed

theorem flood_passthrough_and_item_mapping_witness:
  "floods_handler (\<lambda>req. Inr (JObj [(''data'', JArr [JObj [(''fields'', JObj [(''title'', JStr (utf16_of ''Flash floods'')), (''url'', JArr [JStr (utf16_of ''https://r.example/1''), JStr (utf16_of ''https://r.example/2'')])])],
        JObj [(''fields'', JObj [(''title'', JStr []) ])]])])) =
     \<lparr>status = 200, body = \<lparr>ok = True, source = Some ''reliefweb'',
        data = Some (Raw (JObj [(''data'', JArr [JObj [(''fields'', JObj [(''title'', JStr (utf16_of ''Flash floods'')), (''url'', JArr [JStr (utf16_of ''https://r.example/1''), JStr (utf16_of ''https://r.example/2'')])])],
        JObj [(''fields'', JObj [(''title'', JStr []) ])]])])), error = None\<rparr>\<rparr> \<and>
   render_floods (fetchJson (Some (floods_handler (\<lambda>req. Inr (JObj [(''data'', JArr [JObj [(''fields'', JObj [(''title'', JStr (utf16_of ''Flash floods'')), (''url'', JArr [JStr (utf16_of ''https://r.example/1''), JStr (utf16_of ''https://r.example/2'')])])],
        JObj [(''fields'', JObj [(''title'', JStr []) ])]])]))))) =
     Inr (Reports
       [\<lparr>report_title = JStr (utf16_of ''Flash floods''),
         report_url = JStr (utf16_of ''https://r.example/1'')\<rparr>,
        \<lparr>report_title = JStr (utf16_of ''Report''), report_url = JNull\<rparr>]) \<and>
   length [JObj [(''fields'', JObj [(''title'', JStr (utf16_of ''Flash floods'')), (''url'', JArr [JStr (utf16_of ''https://r.example/1''), JStr (utf16_of ''https://r.example/2'')])])], JObj [(''fields'', JObj [(''title'', JStr []) ])]] \<le> 6"
  using
    flood_passthrough_and_item_mapping
      [where axios_get = "\<lambda>req. Inr (JObj [(''data'', JArr [JObj [(''fields'', JObj [(''title'', JStr (utf16_of ''Flash floods'')), (''url'', JArr [JStr (utf16_of ''https://r.example/1''), JStr (utf16_of ''https://r.example/2'')])])],
        JObj [(''fields'', JObj [(''title'', JStr []) ])]])])"
         and b = "JObj [(''data'', JArr [JObj [(''fields'', JObj [(''title'', JStr (utf16_of ''Flash floods'')), (''url'', JArr [JStr (utf16_of ''https://r.example/1''), JStr (utf16_of ''https://r.example/2'')])])],
        JObj [(''fields'', JObj [(''title'', JStr []) ])]])]"
         and rs = "[JObj [(''fields'', JObj [(''title'', JStr (utf16_of ''Flash floods'')), (''url'', JArr [JStr (utf16_of ''https://r.example/1''), JStr (utf16_of ''https://r.example/2'')])])], JObj [(''fields'', JObj [(''title'', JStr []) ])]]" and n = 6
         and r = "JObj [(''fields'', JObj [(''title'', JStr (utf16_of ''Flash floods'')), (''url'', JArr [JStr (utf16_of ''https://r.example/1''), JStr (utf16_of ''https://r.example/2'')])])]"
         and f = "JObj [(''title'', JStr (utf16_of ''Flash floods'')), (''url'', JArr [JStr (utf16_of ''https://r.example/1''), JStr (utf16_of ''https://r.example/2'')])]"
         and t = "JStr (utf16_of ''Flash floods'')"
         and u = "JStr (utf16_of ''https://r.example/1'')"
         and us = "[JStr (utf16_of ''https://r.example/2'')]"]
    flood_passthrough_and_item_mapping
      [where axios_get = "\<lambda>req. Inr (JObj [(''data'', JArr [JObj [(''fields'', JObj [(''title'', JStr (utf16_of ''Flash floods'')), (''url'', JArr [JStr (utf16_of ''https://r.example/1''), JStr (utf16_of ''https://r.example/2'')])])],
        JObj [(''fields'', JObj [(''title'', JStr []) ])]])])"
         and b = "JObj [(''data'', JArr [JObj [(''fields'', JObj [(''title'', JStr (utf16_of ''Flash floods'')), (''url'', JArr [JStr (utf16_of ''https://r.example/1''), JStr (utf16_of ''https://r.example/2'')])])],
        JObj [(''fields'', JObj [(''title'', JStr []) ])]])]"
         and rs = "[JObj [(''fields'', JObj [(''title'', JStr (utf16_of ''Flash floods'')), (''url'', JArr [JStr (utf16_of ''https://r.example/1''), JStr (utf16_of ''https://r.example/2'')])])], JObj [(''fields'', JObj [(''title'', JStr []) ])]]" and n = 6
         and r = "JObj [(''fields'', JObj [(''title'', JStr []) ])]"
         and f = "JObj [(''title'', JStr []) ]"
         and t = "JStr []"]
  by (simp add: floods_request_def utf16_of_def)

section \<open>Earthquake rendering\<close>

lemma mset_sort_insert: "mset (sort_insert cmp x ys) = add_mset x (mset ys)"
  by (induction ys) auto

lemma mset_js_sort: "mset (js_sort cmp xs) = mset xs"
  by (induction xs) (auto simp: js_sort_def mset_sort_insert)

lemma set_sort_insert: "set (sort_insert cmp x ys) = insert x (set ys)"
  by (induction ys) auto

lemma sorted_sort_insert:
  "sorted_wrt (\<lambda>a b. mag_number a \<ge> mag_number b) ys \<Longrightarrow>
   sorted_wrt (\<lambda>a b. mag_number a \<ge> mag_number b) (sort_insert by_mag_desc x ys)"
  by (induction ys) (auto simp: set_sort_insert by_mag_desc_def)

lemma sorted_js_sort:
  "sorted_wrt (\<lambda>a b. mag_number a \<ge> mag_number b) (js_sort by_mag_desc xs)"
  by (induction xs) (auto simp: js_sort_def sorted_sort_insert)

lemma shown_mag_render: "shown_mag (render_feature f) = mag_number f"
  by (simp add: render_feature_def mag_number_def Let_def split: option.splits)

lemma color_render: "color (render_feature f) = marker_color (shown_mag (render_feature f))"
  by (simp add: render_feature_def Let_def)

lemma sorted_wrt_take: "sorted_wrt P xs \<Longrightarrow> sorted_wrt P (take n xs)"
  by (metis append_take_drop_id sorted_wrt_append)

text \<open>
  Claim C8. For any earthquake feature list, the sorted list is a rearrangement of the
  features in descending order of magnitude, the frontend renders its first 50
  elements (all of them when there are fewer), so the rendered magnitudes are
  descending and at most 50; for the magnitudes 5.2, 2.1, 6.8 the rendered order is
  6.8, 5.2, 2.1.
\<close>

theorem earthquakes_sorted_desc_top_50:
  "mset (js_sort by_mag_desc fs) = mset fs \<and>
   sorted_wrt (\<lambda>a b. mag_number a \<ge> mag_number b) (js_sort by_mag_desc fs) \<and>
   map shown_mag (render_earthquakes fs) = map mag_number (take 50 (js_sort by_mag_desc fs)) \<and>
   sorted_wrt (\<lambda>a b. shown_mag a \<ge> shown_mag b) (render_earthquakes fs) \<and>
   length (render_earthquakes fs) = min 50 (length fs) \<and>
   map shown_mag (render_earthquakes
     [\<lparr>mag = Some (52 / 10), place = None, lon = 0, lat = 0\<rparr>,
      \<lparr>mag = Some (21 / 10), place = None, lon = 0, lat = 0\<rparr>,
      \<lparr>mag = Some (68 / 10), place = None, lon = 0, lat = 0\<rparr>]) = [68 / 10, 52 / 10, 21 / 10]"
proof (intro conjI)
  show "mset (js_sort by_mag_desc fs) = mset fs"
    by (rule mset_js_sort)
  show "sorted_wrt (\<lambda>a b. mag_number a \<ge> mag_number b) (js_sort by_mag_desc fs)"
    by (rule sorted_js_sort)
  show "map shown_mag (render_earthquakes fs) = map mag_number (take 50 (js_sort by_mag_desc fs))"
    by (simp add: render_earthquakes_def shown_mag_render)
  have "sorted_wrt (\<lambda>a b. mag_number a \<ge> mag_number b) (take 50 (js_sort by_mag_desc fs))"
    by (rule sorted_wrt_take [OF sorted_js_sort])
  then show "sorted_wrt (\<lambda>a b. shown_mag a \<ge> shown_mag b) (render_earthquakes fs)"
    by (simp add: render_earthquakes_def sorted_wrt_map shown_mag_render)
  have "length (js_sort by_mag_desc fs) = length fs"
    by (metis mset_js_sort size_mset)
  then show "length (render_earthquakes fs) = min 50 (length fs)"
    by (simp add: render_earthquakes_def min.commute)
  show "map shown_mag (render_earthquakes
     [\<lparr>mag = Some (52 / 10), place = None, lon = 0, lat = 0\<rparr>,
      \<lparr>mag = Some (21 / 10), place = None, lon = 0, lat = 0\<rparr>,
      \<lparr>mag = Some (68 / 10), place = None, lon = 0, lat = 0\<rparr>]) = [68 / 10, 52 / 10, 21 / 10]"
    by (simp add: render_earthquakes_def js_sort_def by_mag_desc_def mag_number_def
        render_feature_def Let_def)
qed

text \<open>
  Claim C9. For every rendered earthquake feature the marker color depends on the
  magnitude alone: red when the magnitude is at least 5, orange when it is at least 3
  and below 5, yellow when it is below 3.
\<close>

theorem marker_color_bands:
  "\<forall>q \<in> set (render_earthquakes fs).
     color q = marker_color (shown_mag q) \<and>
     (shown_mag q \<ge> 5 \<longrightarrow> color q = ''red'') \<and>
     (3 \<le> shown_mag q \<and> shown_mag q < 5 \<longrightarrow> color q = ''orange'') \<and>
     (shown_mag q < 3 \<longrightarrow> color q = ''yellow'')"
  by (auto simp add: render_earthquakes_def color_render marker_color_def)

theorem marker_color_bands_witness:
  "map color (render_earthquakes
     [\<lparr>mag = Some (52 / 10), place = None, lon = 0, lat = 0\<rparr>,
      \<lparr>mag = Some (21 / 10), place = None, lon = 0, lat = 0\<rparr>,
      \<lparr>mag = None, place = None, lon = 0, lat = 0\<rparr>,
      \<lparr>mag = Some (40 / 10), place = None, lon = 0, lat = 0\<rparr>]) =
     [''red'', ''orange'', ''yellow'', ''yellow'']"
  using marker_color_bands
    [of "[\<lparr>mag = Some (52 / 10), place = None, lon = 0, lat = 0\<rparr>,
      \<lparr>mag = Some (21 / 10), place = None, lon = 0, lat = 0\<rparr>,
      \<lparr>mag = None, place = None, lon = 0, lat = 0\<rparr>,
      \<lparr>mag = Some (40 / 10), place = None, lon = 0, lat = 0\<rparr>]"]
  by (simp add: render_earthquakes_def js_sort_def by_mag_desc_def mag_number_def
        render_feature_def Let_def)

end
